theory Spec2Isabelle
  imports Complex_Main
begin

section \<open>Python floats\<close>

text \<open>
  Every number of \<^verbatim>\<open>models.py\<close> is a Python \<^verbatim>\<open>float\<close>, an IEEE-754 binary64 value.
  A finite binary64 value is a real number, so the carrier is \<^typ>\<open>real\<close>; the
  arithmetic of the source (\<^verbatim>\<open>+\<close>, \<^verbatim>\<open>-\<close>, \<^verbatim>\<open>*\<close>) is the exact operation followed by
  rounding to the nearest binary64 value, ties to the even significand. Comparisons and
  \<^verbatim>\<open>max\<close>, \<^verbatim>\<open>abs\<close> and unary minus are exact. Infinities and NaN are not represented:
  the model covers runs in which no operation overflows.
\<close>

definition round_half_even :: "real \<Rightarrow> int" where
  "round_half_even r =
     (let f = \<lfloor>r\<rfloor>; d = r - of_int f
      in if d < 1/2 then f else if 1/2 < d then f + 1 else if even f then f else f + 1)"

text \<open>The binary exponent of a magnitude of at least 1: how often it can be halved.\<close>

function halvings :: "real \<Rightarrow> nat" where
  "halvings r = (if r < 2 then 0 else Suc (halvings (r / 2)))"
  by pat_completeness auto
termination
proof (relation "measure (\<lambda>r. nat \<lfloor>r\<rfloor>)")
  show "wf (measure (\<lambda>r::real. nat \<lfloor>r\<rfloor>))" by simp
next
  fix r :: real
  assume "\<not> r < 2"
  then have "r / 2 \<le> r - 1" by simp
  then have "\<lfloor>r / 2\<rfloor> \<le> \<lfloor>r - 1\<rfloor>" by (rule floor_mono)
  moreover have "1 \<le> \<lfloor>r\<rfloor>" using \<open>\<not> r < 2\<close> by (simp add: le_floor_iff)
  ultimately show "(r / 2, r) \<in> measure (\<lambda>r. nat \<lfloor>r\<rfloor>)" by simp
qed

text \<open>
  The binary exponent of a magnitude below 1: how often it must be doubled to reach 1,
  at most \<open>n\<close> times. With \<open>n = 1022\<close> the count stops at the smallest normal exponent,
  so that subnormal values (and zero) share the exponent \<open>-1022\<close>.
\<close>

fun doublings :: "nat \<Rightarrow> real \<Rightarrow> nat" where
  "doublings 0 r = 0"
| "doublings (Suc n) r = (if 1 \<le> r then 0 else Suc (doublings n (2 * r)))"

definition b64_exponent :: "real \<Rightarrow> int" where
  "b64_exponent r =
     (if 1 \<le> \<bar>r\<bar> then int (halvings \<bar>r\<bar>) else - int (doublings 1022 \<bar>r\<bar>))"

text \<open>Rounding to binary64: 53 significant bits, the last one worth \<open>2 powi (e - 52)\<close>.\<close>

definition b64 :: "real \<Rightarrow> real" where
  "b64 r = (let u = 2 powi (b64_exponent r - 52) in u * of_int (round_half_even (r / u)))"

definition is_b64 :: "real \<Rightarrow> bool" where
  "is_b64 r = (b64 r = r)"

definition fadd :: "real \<Rightarrow> real \<Rightarrow> real" where
  "fadd a b = b64 (a + b)"

definition fsub :: "real \<Rightarrow> real \<Rightarrow> real" where
  "fsub a b = b64 (a - b)"

definition fmul :: "real \<Rightarrow> real \<Rightarrow> real" where
  "fmul a b = b64 (a * b)"

section \<open>Module constants\<close>

text \<open>A decimal literal denotes the binary64 value nearest to it.\<close>

definition GROUND_Y_LEVEL :: real where
  "GROUND_Y_LEVEL = - b64 (8/10)"

definition INITIAL_JUMP_SPEED_IN_Y :: real where
  "INITIAL_JUMP_SPEED_IN_Y = b64 (3/10)"

definition GRAVITY :: real where
  "GRAVITY = b64 (2/10)"

definition X_DISTANCE_BETWEEN_OBSTACLES_STD :: real where
  "X_DISTANCE_BETWEEN_OBSTACLES_STD = b64 (3/10)"

definition FIRST_OBSTACLE_OFFSET_IN_X :: real where
  "FIRST_OBSTACLE_OFFSET_IN_X = b64 (8/10)"

definition DESTRUCT_OFFSET_IN_X :: real where
  "DESTRUCT_OFFSET_IN_X = 1"

section \<open>Exceptions and dynamically typed values\<close>

datatype error = TypeError | AttributeError | IndexError

text \<open>
  Addresses of obstacle objects. The deque \<^verbatim>\<open>ObstacleManager.obstacles\<close> holds references,
  so an assignment to \<^verbatim>\<open>curr_obstacle.x\<close> is seen through the deque as well.
\<close>

type_synonym ref = nat

text \<open>
  The values that reach \<^verbatim>\<open>len(cls.obstacles <= 0)\<close>. In Python 3 an ordering comparison
  of a deque with an int is not supported by either operand and raises TypeError;
  \<^verbatim>\<open>len\<close> of a bool or an int raises TypeError as well.
\<close>

datatype pyval = PyDeque "ref list" | PyInt int | PyBool bool

fun py_le_int :: "pyval \<Rightarrow> int \<Rightarrow> error + bool" where
  "py_le_int (PyDeque d) n = Inl TypeError"
| "py_le_int (PyInt a) n = Inr (a \<le> n)"
| "py_le_int (PyBool b) n = Inr ((if b then 1 else 0) \<le> n)"

fun py_len :: "pyval \<Rightarrow> error + nat" where
  "py_len (PyDeque d) = Inr (length d)"
| "py_len (PyInt a) = Inl TypeError"
| "py_len (PyBool b) = Inl TypeError"

section \<open>CollisionObject\<close>

record collision_object =
  x :: real
  y :: real
  lower_x_bound :: real
  higher_x_bound :: real
  lower_y_bound :: real
  higher_y_bound :: real

text \<open>
  \<^verbatim>\<open>is_colliding_with_object(self, other)\<close>. The result is returned together with both
  objects as they are after the call; subclasses (Player, Obstacle) are record extensions.
\<close>

definition is_colliding_with_object ::
  "'a collision_object_scheme \<Rightarrow> 'b collision_object_scheme \<Rightarrow>
     bool \<times> 'a collision_object_scheme \<times> 'b collision_object_scheme" where
  "is_colliding_with_object self other =
     (let collides_in_x = (lower_x_bound other \<le> fsub (x self) (x other)
                           \<and> fsub (x self) (x other) \<le> higher_x_bound other);
          collides_in_y = (lower_y_bound other \<le> fsub (y self) (y other)
                           \<and> fsub (y self) (y other) \<le> higher_y_bound other)
      in if collides_in_x \<and> collides_in_y then (True, self, other) else (False, self, other))"

section \<open>Player\<close>

text \<open>
  \<^verbatim>\<open>speed\<close> is the two-element list \<^verbatim>\<open>[vx, vy]\<close>, only ever read and written at the
  indices 0 and 1: a pair. \<^verbatim>\<open>_is_in_air\<close> loses its leading underscore.
\<close>

record player = collision_object +
  speed :: "real \<times> real"
  is_in_air :: bool

record controller =
  jump_action_queued :: bool

definition Player_init :: "real \<Rightarrow> real \<Rightarrow> player" where
  "Player_init px py =
     \<lparr>x = px, y = py, lower_x_bound = b64 (1/10), higher_x_bound = b64 (1/10),
      lower_y_bound = b64 (1/10), higher_y_bound = b64 (1/10),
      speed = (b64 (1/10), 0), is_in_air = False\<rparr>"

definition Player_update :: "player \<Rightarrow> real \<Rightarrow> controller \<Rightarrow> player \<times> controller" where
  "Player_update self dt ctl =
     (let p1 = self\<lparr>x := fadd (x self) (fmul (fst (speed self)) dt)\<rparr>;
          p2 = p1\<lparr>y := fadd (y p1) (fmul (snd (speed p1)) dt)\<rparr>;
          (p3, ctl') =
             (if jump_action_queued ctl \<and> \<not> is_in_air p2
              then (p2\<lparr>speed := (fst (speed p2), INITIAL_JUMP_SPEED_IN_Y), is_in_air := True\<rparr>,
                    ctl\<lparr>jump_action_queued := False\<rparr>)
              else (p2, ctl));
          p4 = (if is_in_air p3
                then (let q = p3\<lparr>speed := (fst (speed p3), fsub (snd (speed p3)) (fmul GRAVITY dt))\<rparr>
                      in q\<lparr>is_in_air := (if GROUND_Y_LEVEL \<le> y q then True else False)\<rparr>)
                else p3\<lparr>speed := (fst (speed p3), 0)\<rparr>)
      in (p4\<lparr>y := max (fadd (y p4) (fmul (snd (speed p4)) dt)) GROUND_Y_LEVEL\<rparr>, ctl'))"

section \<open>GameState\<close>

text \<open>
  The attributes of a GameState as an instance sees them: the class attributes
  (\<^verbatim>\<open>camera_position = 0.0\<close>, \<^verbatim>\<open>total_time_played = 0.0\<close>, \<^verbatim>\<open>player = None\<close>) until the
  instance assigns its own. \<^verbatim>\<open>obstacle_manager\<close> is never read in this module.
\<close>

record game_state =
  camera_position :: real
  total_time_played :: real
  player :: "player option"

definition GameState_class :: game_state where
  "GameState_class = \<lparr>camera_position = 0, total_time_played = 0, player = None\<rparr>"

text \<open>\<^verbatim>\<open>self.player.x\<close> raises AttributeError while \<^verbatim>\<open>player\<close> is still None.\<close>

definition GameState_update :: "game_state \<Rightarrow> real \<Rightarrow> error + game_state" where
  "GameState_update self dt =
     (case player self of
        None \<Rightarrow> Inl AttributeError
      | Some p \<Rightarrow>
          (let s1 = self\<lparr>camera_position := x p\<rparr>
           in Inr (s1\<lparr>total_time_played := fadd (total_time_played s1) dt\<rparr>)))"

text \<open>Successive ticks: one call of \<^verbatim>\<open>update\<close> for each \<open>dt\<close>, stopping at an exception.\<close>

fun GameState_updates :: "game_state \<Rightarrow> real list \<Rightarrow> error + game_state" where
  "GameState_updates g [] = Inr g"
| "GameState_updates g (dt # dts) =
     (case GameState_update g dt of Inl e \<Rightarrow> Inl e | Inr g' \<Rightarrow> GameState_updates g' dts)"

section \<open>ObstacleManager and Obstacle\<close>

text \<open>
  The process-wide state the class methods work on: the obstacle objects by address, the
  class attribute \<^verbatim>\<open>ObstacleManager.obstacles\<close>, and the class attributes of GameState
  (what \<^verbatim>\<open>GameState()\<close> and \<^verbatim>\<open>GameState.camera_position\<close> read). A raised exception
  leaves the mutations made before it in place, so every operation returns the
  world next to its outcome.
\<close>

record world =
  heap :: "ref \<Rightarrow> collision_object"
  obstacles :: "ref list"
  GameState_attrs :: game_state

definition set_x :: "world \<Rightarrow> ref \<Rightarrow> real \<Rightarrow> world" where
  "set_x w r v = w\<lparr>heap := (heap w)(r := (heap w r)\<lparr>x := v\<rparr>)\<rparr>"

definition obstacles_do_overlap :: "collision_object \<Rightarrow> collision_object \<Rightarrow> bool" where
  "obstacles_do_overlap obs1 obs2 =
     (let obs1_at_the_left = (x obs1 \<le> x obs2);
          x_overlap = (if obs1_at_the_left
                       then lower_x_bound obs2 \<le> higher_x_bound obs1
                       else higher_x_bound obs1 \<le> lower_x_bound obs2);
          obs1_on_top = (y obs2 \<le> y obs1);
          y_overlap = (if obs1_on_top
                       then higher_y_bound obs2 \<le> lower_y_bound obs1
                       else lower_y_bound obs1 \<le> higher_y_bound obs2)
      in x_overlap \<and> y_overlap)"

text \<open>
  \<^verbatim>\<open>_simple_set_obstacle_at_the_right_of_player(curr_obstacle)\<close>, called with its
  argument. \<^verbatim>\<open>GameState()\<close> is a fresh instance, which reads the class attributes.
\<close>

definition simple_set_obstacle_at_the_right_of_player ::
  "world \<Rightarrow> ref \<Rightarrow> (error + unit) \<times> world" where
  "simple_set_obstacle_at_the_right_of_player w curr_obstacle =
     (let gameState = GameState_attrs w
      in case player gameState of
           None \<Rightarrow> (Inl AttributeError, w)
         | Some p \<Rightarrow>
             (let player_position_x = x p;
                  w1 = set_x w curr_obstacle (fadd player_position_x FIRST_OBSTACLE_OFFSET_IN_X)
              in (Inr (), w1\<lparr>obstacles := obstacles w1 @ [curr_obstacle]\<rparr>)))"

text \<open>
  The \<^verbatim>\<open>while\<close> loop of \<^verbatim>\<open>_set_random_position\<close>. Each iteration consumes one sample of
  \<^verbatim>\<open>np.random.randn(1)\<close>; the samples are an input, and \<open>None\<close> says that the loop is
  still running when they are used up. (The one-element array that numpy returns is
  modelled by its element.)
\<close>

fun reallocate :: "world \<Rightarrow> ref \<Rightarrow> ref \<Rightarrow> real \<Rightarrow> real list \<Rightarrow> world option" where
  "reallocate w cur lst std_sigma [] =
     (if obstacles_do_overlap (heap w cur) (heap w lst) then None else Some w)"
| "reallocate w cur lst std_sigma (d # ds) =
     (if obstacles_do_overlap (heap w cur) (heap w lst)
      then (let std_sigma' = fmul std_sigma (1/2)
            in reallocate (set_x w cur (fadd (x (heap w lst)) \<bar>fmul d std_sigma'\<bar>))
                 cur lst std_sigma' ds)
      else Some w)"

text \<open>
  \<^verbatim>\<open>_set_random_position(curr_obstacle)\<close>. The condition is \<^verbatim>\<open>len(cls.obstacles <= 0)\<close>:
  the comparison is evaluated first, then \<^verbatim>\<open>len\<close> of its result. The first branch calls
  \<^verbatim>\<open>cls._simple_set_obstacle_at_the_right_of_player()\<close> without the required argument,
  which raises TypeError before the body runs.
\<close>

definition set_random_position ::
  "world \<Rightarrow> ref \<Rightarrow> real list \<Rightarrow> ((error + unit) \<times> world) option" where
  "set_random_position w curr_obstacle draws =
     (case py_le_int (PyDeque (obstacles w)) 0 of
        Inl e \<Rightarrow> Some (Inl e, w)
      | Inr b \<Rightarrow>
         (case py_len (PyBool b) of
            Inl e \<Rightarrow> Some (Inl e, w)
          | Inr n \<Rightarrow>
             if n \<noteq> 0 then Some (Inl TypeError, w)
             else (case rev (obstacles w) of
                     [] \<Rightarrow> Some (Inl IndexError, w)
                   | last_positioned_obstacle # _ \<Rightarrow>
                      (case draws of
                         [] \<Rightarrow> None
                       | d # ds \<Rightarrow>
                          (let std_sigma = X_DISTANCE_BETWEEN_OBSTACLES_STD;
                               w1 = set_x w curr_obstacle
                                      (fadd (x (heap w last_positioned_obstacle))
                                            \<bar>fmul d std_sigma\<bar>)
                           in map_option (Pair (Inr ()))
                                (reallocate w1 curr_obstacle last_positioned_obstacle
                                   std_sigma ds))))))"

definition add_new_obstacle ::
  "world \<Rightarrow> ref \<Rightarrow> real list \<Rightarrow> ((error + unit) \<times> world) option" where
  "add_new_obstacle w obstacle draws =
     set_random_position (w\<lparr>obstacles := obstacles w @ [obstacle]\<rparr>) obstacle draws"

text \<open>
  \<^verbatim>\<open>Obstacle.check_for_destroy(self)\<close>. \<^verbatim>\<open>del self\<close> removes the name \<^verbatim>\<open>self\<close> from the
  local variables of the call; the result is the local variables at the end of the body
  and the world.
\<close>

definition check_for_destroy :: "world \<Rightarrow> ref \<Rightarrow> (string \<rightharpoonup> ref) \<times> world" where
  "check_for_destroy w self =
     (let locals = [''self'' \<mapsto> self]
      in if x (heap w self) \<le> fsub (camera_position (GameState_attrs w)) DESTRUCT_OFFSET_IN_X
         then (locals(''self'' := None), w)
         else (locals, w))"

section \<open>Inputs used by the concrete checks\<close>

definition grounded_player :: player where
  "grounded_player = Player_init 0 GROUND_Y_LEVEL"

definition airborne_player :: player where
  "airborne_player = (Player_init 0 0)\<lparr>is_in_air := True\<rparr>"

definition jump_pressed :: controller where
  "jump_pressed = \<lparr>jump_action_queued = True\<rparr>"

definition no_jump :: controller where
  "no_jump = \<lparr>jump_action_queued = False\<rparr>"

definition new_obstacle :: collision_object where
  "new_obstacle = \<lparr>x = 0, y = 0, lower_x_bound = 0, higher_x_bound = 0,
     lower_y_bound = 0, higher_y_bound = 0\<rparr>"

definition passed_obstacle :: collision_object where
  "passed_obstacle = new_obstacle\<lparr>x := - 2\<rparr>"

text \<open>One obstacle, at \<open>x = -2\<close>, in the deque; the camera at \<open>0.0\<close>.\<close>

definition world_with_passed_obstacle :: world where
  "world_with_passed_obstacle =
     \<lparr>heap = (\<lambda>r. passed_obstacle), obstacles = [0], GameState_attrs = GameState_class\<rparr>"

text \<open>An empty deque, the player at \<open>x = 5.0\<close>, a new obstacle at address 0.\<close>

definition first_spawn_world :: world where
  "first_spawn_world =
     \<lparr>heap = (\<lambda>r. new_obstacle), obstacles = [],
      GameState_attrs = GameState_class\<lparr>player := Some (Player_init 5 GROUND_Y_LEVEL)\<rparr>\<rparr>"

text \<open>An empty deque and two obstacles: address 0 at \<open>x = 1.0\<close>, address 1 at \<open>x = 0.0\<close>.\<close>

definition two_obstacles_world :: world where
  "two_obstacles_world =
     \<lparr>heap = (\<lambda>r. new_obstacle\<lparr>x := (if r = 0 then 1 else 0)\<rparr>), obstacles = [],
      GameState_attrs = GameState_class\<rparr>"

definition probe_a :: collision_object where
  "probe_a = \<lparr>x = 0, y = 0, lower_x_bound = 1, higher_x_bound = 2,
     lower_y_bound = 1, higher_y_bound = 2\<rparr>"

definition probe_b :: collision_object where
  "probe_b = \<lparr>x = 0, y = 0, lower_x_bound = 0, higher_x_bound = 0,
     lower_y_bound = 0, higher_y_bound = 0\<rparr>"

text \<open>A GameState whose player has been set, at \<open>x = 5.0\<close>; no time played yet.\<close>

definition playing_state :: game_state where
  "playing_state = GameState_class\<lparr>player := Some (Player_init 5 GROUND_Y_LEVEL)\<rparr>"

section \<open>Facts about rounding\<close>

lemma round_half_even_of_int: "round_half_even (of_int n) = n"
  by (simp add: round_half_even_def)

lemma b64_zero: "b64 0 = 0"
  by (simp add: b64_def round_half_even_def)

text \<open>
  The exponent \<open>e\<close> of \<open>r\<close>: \<open>2 powi e \<le> \<bar>r\<bar> < 2 powi (e + 1)\<close>, with \<open>e\<close> held at
  \<open>-1022\<close> below the normal range.
\<close>

lemma halvings_bounds:
  "1 \<le> r \<Longrightarrow> 2 ^ halvings r \<le> r \<and> r < 2 ^ Suc (halvings r)"
proof (induction r rule: halvings.induct)
  case (1 r)
  show ?case
  proof (cases "r < 2")
    case True
    then have "halvings r = 0" by (subst halvings.simps) simp
    with True "1.prems" show ?thesis by simp
  next
    case False
    then have h: "halvings r = Suc (halvings (r / 2))" by (subst halvings.simps) simp
    from False have "1 \<le> r / 2" by simp
    with "1.IH" [OF False]
    have "2 ^ halvings (r / 2) \<le> r / 2 \<and> r / 2 < 2 ^ Suc (halvings (r / 2))"
      by blast
    then show ?thesis unfolding h by simp
  qed
qed

lemma doublings_bounds:
  "0 \<le> r \<Longrightarrow> r < 1 \<Longrightarrow>
     doublings n r \<le> n \<and> r * 2 ^ doublings n r < 2
     \<and> (doublings n r = n \<or> 1 \<le> r * 2 ^ doublings n r)"
proof (induction n arbitrary: r)
  case 0
  then show ?case by simp
next
  case (Suc n)
  show ?case
  proof (cases "1 \<le> 2 * r")
    case True
    then have "doublings n (2 * r) = 0" by (cases n) simp_all
    with Suc.prems True show ?thesis by simp
  next
    case False
    then have "2 * r < 1" by simp
    moreover have "0 \<le> 2 * r" using Suc.prems by simp
    ultimately have "doublings n (2 * r) \<le> n \<and> (2 * r) * 2 ^ doublings n (2 * r) < 2
     \<and> (doublings n (2 * r) = n \<or> 1 \<le> (2 * r) * 2 ^ doublings n (2 * r))"
      using Suc.IH [of "2 * r"] by blast
    with Suc.prems show ?thesis by (simp add: mult.assoc mult.left_commute)
  qed
qed

lemma b64_exponent_ge: "- 1022 \<le> b64_exponent r"
proof (cases "1 \<le> \<bar>r\<bar>")
  case True
  then show ?thesis by (simp add: b64_exponent_def)
next
  case False
  then have "doublings 1022 \<bar>r\<bar> \<le> 1022" using doublings_bounds [of "\<bar>r\<bar>" 1022] by simp
  with False show ?thesis by (simp add: b64_exponent_def)
qed

lemma powi_neg_nat: "(2::real) powi (- int k) = 1 / 2 ^ k"
  by (simp add: power_int_minus field_simps)

lemma b64_exponent_upper: "\<bar>r\<bar> < 2 powi (b64_exponent r + 1)"
proof (cases "1 \<le> \<bar>r\<bar>")
  case True
  then have "\<bar>r\<bar> < 2 ^ Suc (halvings \<bar>r\<bar>)" using halvings_bounds by blast
  moreover have "b64_exponent r + 1 = int (Suc (halvings \<bar>r\<bar>))"
    using True by (simp add: b64_exponent_def)
  ultimately show ?thesis by (simp only: power_int_of_nat)
next
  case False
  define k where "k = doublings 1022 \<bar>r\<bar>"
  have "\<bar>r\<bar> * 2 ^ k < 2" using doublings_bounds [of "\<bar>r\<bar>" 1022] False by (simp add: k_def)
  then have "\<bar>r\<bar> < 2 / 2 ^ k" by (simp add: field_simps)
  also have "2 / 2 ^ k = (2::real) powi (- int k + 1)"
  proof -
    have "(2::real) powi (- int k + 1) = 2 powi (- int k) * 2 powi 1"
      by (rule power_int_add) simp
    then show ?thesis by (simp only: powi_neg_nat) simp
  qed
  finally show ?thesis using False by (simp add: b64_exponent_def k_def)
qed

lemma b64_exponent_lower: "b64_exponent r = - 1022 \<or> 2 powi (b64_exponent r) \<le> \<bar>r\<bar>"
proof (cases "1 \<le> \<bar>r\<bar>")
  case True
  then have "2 ^ halvings \<bar>r\<bar> \<le> \<bar>r\<bar>" using halvings_bounds by blast
  with True show ?thesis by (simp add: b64_exponent_def)
next
  case False
  define k where "k = doublings 1022 \<bar>r\<bar>"
  have "k = 1022 \<or> 1 \<le> \<bar>r\<bar> * 2 ^ k"
    using doublings_bounds [of "\<bar>r\<bar>" 1022] False by (simp add: k_def)
  then show ?thesis
  proof
    assume "k = 1022"
    then show ?thesis using False by (simp add: b64_exponent_def k_def)
  next
    assume "1 \<le> \<bar>r\<bar> * 2 ^ k"
    then have "1 / 2 ^ k \<le> \<bar>r\<bar>" by (simp add: field_simps)
    then have "2 powi (- int k) \<le> \<bar>r\<bar>" by (simp only: powi_neg_nat)
    then show ?thesis using False by (simp add: b64_exponent_def k_def)
  qed
qed

lemma powi_two_less_imp: "(2::real) powi m < 2 powi n \<Longrightarrow> m < n"
  using power_int_increasing [of n m "2::real"] by (cases "m < n") auto

lemma b64_exponent_le:
  assumes "- 1022 \<le> j" and "\<bar>r\<bar> < 2 powi (j + 1)"
  shows "b64_exponent r \<le> j"
proof -
  from b64_exponent_lower [of r] show ?thesis
  proof
    assume "b64_exponent r = - 1022"
    with assms show ?thesis by simp
  next
    assume "2 powi (b64_exponent r) \<le> \<bar>r\<bar>"
    with assms have "(2::real) powi (b64_exponent r) < 2 powi (j + 1)" by simp
    then have "b64_exponent r < j + 1" by (rule powi_two_less_imp)
    then show ?thesis by simp
  qed
qed

lemma b64_exponent_ge_of:
  assumes "2 powi j \<le> \<bar>r\<bar>"
  shows "j \<le> b64_exponent r"
proof -
  from assms b64_exponent_upper [of r] have "(2::real) powi j < 2 powi (b64_exponent r + 1)"
    by simp
  then have "j < b64_exponent r + 1" by (rule powi_two_less_imp)
  then show ?thesis by simp
qed

lemma b64_exponent_mono:
  assumes "\<bar>a\<bar> \<le> \<bar>b\<bar>"
  shows "b64_exponent a \<le> b64_exponent b"
proof -
  from b64_exponent_lower [of a] show ?thesis
  proof
    assume "b64_exponent a = - 1022"
    then show ?thesis using b64_exponent_ge [of b] by simp
  next
    assume "2 powi (b64_exponent a) \<le> \<bar>a\<bar>"
    with assms have "2 powi (b64_exponent a) \<le> \<bar>b\<bar>" by simp
    then show ?thesis by (rule b64_exponent_ge_of)
  qed
qed

lemma round_half_even_ge: "of_int n \<le> t \<Longrightarrow> n \<le> round_half_even t"
proof -
  assume "of_int n \<le> t"
  then have "n \<le> \<lfloor>t\<rfloor>" by (simp add: le_floor_iff)
  moreover have "\<lfloor>t\<rfloor> \<le> round_half_even t" by (simp add: round_half_even_def Let_def)
  ultimately show ?thesis by simp
qed

lemma round_half_even_le: "t \<le> of_int n \<Longrightarrow> round_half_even t \<le> n"
proof (cases "t = of_int n")
  case True
  then show ?thesis by (simp add: round_half_even_of_int)
next
  case False
  assume "t \<le> of_int n"
  with False have "t < of_int n" by simp
  then have "\<lfloor>t\<rfloor> < n" by (simp add: floor_less_iff)
  moreover have "round_half_even t \<le> \<lfloor>t\<rfloor> + 1" by (simp add: round_half_even_def Let_def)
  ultimately show ?thesis by simp
qed

text \<open>
  Values on the grid of their exponent, with a significand of at most 53 bits, are left
  alone by rounding; so rounding is idempotent.
\<close>

lemma powi_two_split:
  assumes "e \<le> k"
  shows "(2::real) powi k = 2 powi e * 2 ^ nat (k - e)"
proof -
  have "(2::real) powi (e + int (nat (k - e))) = 2 powi e * 2 powi int (nat (k - e))"
    by (rule power_int_add) simp
  moreover have "e + int (nat (k - e)) = k" using assms by simp
  ultimately show ?thesis by (simp only: power_int_of_nat)
qed

lemma b64_on_grid:
  assumes "b64_exponent v - 52 \<le> k" and that: "v = 2 powi k * of_int m"
  shows "b64 (2 powi k * of_int m) = 2 powi k * of_int m"
proof -
  define u :: real where "u = 2 powi (b64_exponent v - 52)"
  define d where "d = nat (k - (b64_exponent v - 52))"
  have u: "0 < u" by (simp add: u_def)
  have k: "2 powi k = u * 2 ^ d" unfolding u_def d_def using assms(1) by (rule powi_two_split)
  have "v / u = of_int (m * 2 ^ d)" using u by (simp add: that k)
  then have "round_half_even (v / u) = m * 2 ^ d" by (simp only: round_half_even_of_int)
  then have "b64 v = u * of_int (m * 2 ^ d)" by (simp add: b64_def Let_def u_def)
  also have "\<dots> = v" by (simp add: that k)
  finally show ?thesis by (simp add: that)
qed

lemma b64_repr_less:
  assumes "- 1074 \<le> k" and "\<bar>m\<bar> < 2 ^ 53"
  shows "b64 (2 powi k * of_int m) = 2 powi k * of_int m"
proof -
  define v :: real where "v = 2 powi k * of_int m"
  have "\<bar>real_of_int m\<bar> < 2 ^ 53"
  proof -
    have "real_of_int \<bar>m\<bar> < real_of_int (2 ^ 53)" using assms(2) by (simp only: of_int_less_iff)
    then show ?thesis by simp
  qed
  then have "2 powi k * \<bar>real_of_int m\<bar> < 2 powi k * 2 ^ 53" by simp
  also have "\<dots> = (2::real) powi (k + 53)"
  proof -
    have "(2::real) powi (k + 53) = 2 powi k * 2 powi 53" by (rule power_int_add) simp
    then show ?thesis by simp
  qed
  finally have "\<bar>v\<bar> < 2 powi ((k + 52) + 1)" by (simp add: v_def abs_mult add.assoc)
  moreover have "- 1022 \<le> k + 52" using assms(1) by simp
  ultimately have "b64_exponent v \<le> k + 52" by (intro b64_exponent_le)
  then have "b64_exponent v - 52 \<le> k" by simp
  then show ?thesis using v_def by (rule b64_on_grid)
qed

lemma b64_repr:
  assumes "- 1074 \<le> k" and "\<bar>m\<bar> \<le> 2 ^ 53"
  shows "b64 (2 powi k * of_int m) = 2 powi k * of_int m"
proof (cases "\<bar>m\<bar> < 2 ^ 53")
  case True
  with assms(1) show ?thesis by (rule b64_repr_less)
next
  case False
  with assms(2) have "\<bar>m\<bar> = 2 ^ 53" by simp
  then have "m = 2 * 2 ^ 52 \<or> m = 2 * (- (2 ^ 52))" by auto
  then obtain n :: int where n: "m = 2 * n" "\<bar>n\<bar> < 2 ^ 53" by auto
  have "(2::real) powi (k + 1) = 2 powi k * 2 powi 1" by (rule power_int_add) simp
  then have eq: "2 powi k * real_of_int m = 2 powi (k + 1) * real_of_int n" by (simp add: n(1))
  have "- 1074 \<le> k + 1" using assms(1) by simp
  then have "b64 (2 powi (k + 1) * of_int n) = 2 powi (k + 1) * of_int n"
    using n(2) by (rule b64_repr_less)
  then show ?thesis by (simp only: eq)
qed

lemma significand_bound:
  "\<bar>round_half_even (r / 2 powi (b64_exponent r - 52))\<bar> \<le> 2 ^ 53"
proof -
  define u :: real where "u = 2 powi (b64_exponent r - 52)"
  have u: "0 < u" by (simp add: u_def)
  have "(2::real) powi (b64_exponent r + 1) = 2 powi ((b64_exponent r - 52) + 53)"
    by (rule arg_cong [where f = "\<lambda>i. 2 powi i"]) simp
  also have "\<dots> = 2 powi (b64_exponent r - 52) * 2 powi 53" by (rule power_int_add) simp
  also have "\<dots> = u * 2 ^ 53" by (simp add: u_def)
  finally have "(2::real) powi (b64_exponent r + 1) = u * 2 ^ 53" .
  with b64_exponent_upper [of r] have "\<bar>r\<bar> < u * 2 ^ 53" by (simp only:)
  then have "r \<le> 2 ^ 53 * u" and "- (2 ^ 53) * u \<le> r" by (simp_all add: abs_less_iff)
  then have "r / u \<le> 2 ^ 53" and "- (2 ^ 53) \<le> r / u"
    using u by (simp_all add: pos_divide_le_eq pos_le_divide_eq)
  then have "r / u \<le> of_int (2 ^ 53)" and "of_int (- (2 ^ 53)) \<le> r / u" by simp_all
  then have "round_half_even (r / u) \<le> 2 ^ 53" and "- (2 ^ 53) \<le> round_half_even (r / u)"
    by (simp_all only: round_half_even_le round_half_even_ge)
  then show ?thesis unfolding u_def by simp
qed

lemma b64_idem: "b64 (b64 r) = b64 r"
proof -
  have "- 1074 \<le> b64_exponent r - 52" using b64_exponent_ge [of r] by simp
  then have "b64 (2 powi (b64_exponent r - 52)
               * of_int (round_half_even (r / 2 powi (b64_exponent r - 52))))
             = 2 powi (b64_exponent r - 52)
               * of_int (round_half_even (r / 2 powi (b64_exponent r - 52)))"
    using significand_bound by (rule b64_repr)
  then show ?thesis by (simp add: b64_def Let_def)
qed

text \<open>Rounding never crosses a binary64 value: a sum is not below a summand it exceeds.\<close>

lemma b64_lower:
  assumes "b64 t = t" and "t \<le> s"
  shows "t \<le> b64 s"
proof -
  define ut :: real where "ut = 2 powi (b64_exponent t - 52)"
  define us :: real where "us = 2 powi (b64_exponent s - 52)"
  define mt where "mt = round_half_even (t / ut)"
  have us: "0 < us" by (simp add: us_def)
  have t: "t = ut * of_int mt" using assms(1) by (simp add: b64_def Let_def ut_def mt_def)
  have s: "b64 s = us * of_int (round_half_even (s / us))" by (simp add: b64_def Let_def us_def)
  show ?thesis
  proof (cases "b64_exponent s \<le> b64_exponent t")
    case True
    define d where "d = nat ((b64_exponent t - 52) - (b64_exponent s - 52))"
    have "b64_exponent s - 52 \<le> b64_exponent t - 52" using True by simp
    then have "ut = us * 2 ^ d" unfolding ut_def us_def d_def by (rule powi_two_split)
    then have tn: "t = us * of_int (mt * 2 ^ d)" using t by simp
    then have "of_int (mt * 2 ^ d) = t / us" using us by simp
    also have "\<dots> \<le> s / us" using assms(2) us by (simp add: divide_right_mono)
    finally have "mt * 2 ^ d \<le> round_half_even (s / us)" by (rule round_half_even_ge)
    then have "real_of_int (mt * 2 ^ d) \<le> of_int (round_half_even (s / us))"
      by (simp only: of_int_le_iff)
    then have "us * real_of_int (mt * 2 ^ d) \<le> us * of_int (round_half_even (s / us))"
      using us by (simp only: mult_le_cancel_left_pos)
    then show ?thesis by (simp only: s tn [symmetric])
  next
    case False
    then have less: "b64_exponent t < b64_exponent s" by simp
    with b64_exponent_ge [of t] have "b64_exponent s \<noteq> - 1022" by simp
    with b64_exponent_lower [of s] have low: "2 powi (b64_exponent s) \<le> \<bar>s\<bar>" by blast
    have "0 \<le> s"
    proof (rule ccontr)
      assume "\<not> 0 \<le> s"
      with assms(2) have "\<bar>s\<bar> \<le> \<bar>t\<bar>" by simp
      then have "b64_exponent s \<le> b64_exponent t" by (rule b64_exponent_mono)
      with less show False by simp
    qed
    with low have low': "2 powi (b64_exponent s) \<le> s" by simp
    have "(2::real) powi (b64_exponent s) = 2 powi ((b64_exponent s - 52) + 52)"
      by (rule arg_cong [where f = "\<lambda>i. 2 powi i"]) simp
    also have "\<dots> = 2 powi (b64_exponent s - 52) * 2 powi 52" by (rule power_int_add) simp
    also have "\<dots> = us * 2 ^ 52" by (simp add: us_def)
    finally have es: "(2::real) powi (b64_exponent s) = us * 2 ^ 52" .
    with low' have "us * 2 ^ 52 \<le> s" by (simp only:)
    then have "2 ^ 52 \<le> s / us" using us by (simp add: pos_le_divide_eq mult.commute)
    then have "of_int (2 ^ 52) \<le> s / us" by simp
    then have "2 ^ 52 \<le> round_half_even (s / us)" by (rule round_half_even_ge)
    then have "real_of_int (2 ^ 52) \<le> of_int (round_half_even (s / us))"
      by (simp only: of_int_le_iff)
    then have "us * real_of_int (2 ^ 52) \<le> us * of_int (round_half_even (s / us))"
      using us by (simp only: mult_le_cancel_left_pos)
    then have big: "2 powi (b64_exponent s) \<le> b64 s" by (simp add: s es)
    have "t \<le> \<bar>t\<bar>" by simp
    also have "\<dots> < 2 powi (b64_exponent t + 1)" by (rule b64_exponent_upper)
    also have "\<dots> \<le> 2 powi (b64_exponent s)" using less by (intro power_int_increasing) simp_all
    finally show ?thesis using big by simp
  qed
qed

lemma fadd_never_below:
  assumes "is_b64 a" and "0 \<le> d"
  shows "a \<le> fadd a d"
  unfolding fadd_def using assms by (intro b64_lower) (simp_all add: is_b64_def)

lemma three_ticks_sum:
  "fadd (fadd (fadd 0 (b64 (1/10))) (b64 (2/10))) (b64 (5/100)) = b64 (35/100) + 2 powi (- 54)"
  by code_simp

lemma fmul_zero_left: "fmul 0 d = 0"
  by (simp add: fmul_def b64_zero)

lemma fadd_zero_right: "fadd a 0 = b64 a"
  by (simp add: fadd_def)

lemma ground_is_b64: "b64 GROUND_Y_LEVEL = GROUND_Y_LEVEL"
  unfolding GROUND_Y_LEVEL_def by code_simp

lemma ground_nonpos: "GROUND_Y_LEVEL \<le> 0"
  unfolding GROUND_Y_LEVEL_def by code_simp

lemma first_tick_speed:
  "fsub INITIAL_JUMP_SPEED_IN_Y (fmul GRAVITY 1) \<noteq> INITIAL_JUMP_SPEED_IN_Y"
  unfolding INITIAL_JUMP_SPEED_IN_Y_def GRAVITY_def by code_simp

lemma destruct_threshold: "fsub 0 DESTRUCT_OFFSET_IN_X = - 1"
  unfolding DESTRUCT_OFFSET_IN_X_def by code_simp

lemma first_spawn_position: "fadd 5 FIRST_OBSTACLE_OFFSET_IN_X = b64 (58/10)"
  unfolding FIRST_OBSTACLE_OFFSET_IN_X_def by code_simp

lemma first_spawn_position_pos: "0 < b64 (58/10)"
  by code_simp

lemma three_ticks_inexact: "b64 (35/100) + 2 powi (- 54) \<noteq> 35/100"
  by code_simp

lemma three_updates:
  "GameState_updates playing_state [a, b, c]
     = Inr (playing_state\<lparr>camera_position := 5,
                           total_time_played := fadd (fadd (fadd 0 a) b) c\<rparr>)"
  by (simp add: playing_state_def GameState_class_def GameState_update_def Player_init_def)

lemma tenth_nonneg: "0 \<le> b64 (1/10)"
  by (rule b64_lower) (simp_all add: b64_zero)

section \<open>CollisionObject: the probe test\<close>

text \<open>
  Claim C1. \<^verbatim>\<open>A.is_colliding_with_object(B)\<close> returns true exactly when the offset of
  \<open>A\<close> from \<open>B\<close> lies within \<open>B\<close>'s bounds on both axes, the differences being the
  float subtractions of the source; only \<open>B\<close>'s bounds are read, and both objects are
  the same after the call as before it.
\<close>

theorem is_colliding_with_object_spec:
  "is_colliding_with_object A B =
     ((lower_x_bound B \<le> fsub (x A) (x B) \<and> fsub (x A) (x B) \<le> higher_x_bound B)
      \<and> (lower_y_bound B \<le> fsub (y A) (y B) \<and> fsub (y A) (y B) \<le> higher_y_bound B),
      A, B)"
  by (simp add: is_colliding_with_object_def)

text \<open>
  Claim C9. The result of the probe test is determined by the bounds of the second object
  and the offset between the two positions: two calls that agree on these agree on the
  result. It is not symmetric: \<open>probe_a\<close> and \<open>probe_b\<close> sit at the same position, and
  \<open>probe_a\<close> collides with \<open>probe_b\<close> while \<open>probe_b\<close> does not collide with \<open>probe_a\<close>.
\<close>

theorem probe_test_asymmetric:
  "(lower_x_bound B = lower_x_bound B' \<and> higher_x_bound B = higher_x_bound B'
      \<and> lower_y_bound B = lower_y_bound B' \<and> higher_y_bound B = higher_y_bound B'
      \<and> fsub (x A) (x B) = fsub (x A') (x B') \<and> fsub (y A) (y B) = fsub (y A') (y B')
    \<longrightarrow> fst (is_colliding_with_object A B) = fst (is_colliding_with_object A' B'))
   \<and> fst (is_colliding_with_object probe_a probe_b)
       \<noteq> fst (is_colliding_with_object probe_b probe_a)"
  by (simp add: is_colliding_with_object_def probe_a_def probe_b_def fsub_def b64_zero)

theorem probe_test_asymmetric_witness:
  "fst (is_colliding_with_object probe_a probe_b)
     = fst (is_colliding_with_object (probe_a\<lparr>x := 1, y := 1\<rparr>) (probe_b\<lparr>x := 1, y := 1\<rparr>))
   \<and> fst (is_colliding_with_object probe_a probe_b)
       \<noteq> fst (is_colliding_with_object probe_b probe_a)"
proof -
  let ?A' = "probe_a\<lparr>x := 1, y := 1\<rparr>" and ?B' = "probe_b\<lparr>x := 1, y := 1\<rparr>"
  have h: "lower_x_bound probe_b = lower_x_bound ?B' \<and> higher_x_bound probe_b = higher_x_bound ?B'
      \<and> lower_y_bound probe_b = lower_y_bound ?B' \<and> higher_y_bound probe_b = higher_y_bound ?B'
      \<and> fsub (x probe_a) (x probe_b) = fsub (x ?A') (x ?B')
      \<and> fsub (y probe_a) (y probe_b) = fsub (y ?A') (y ?B')"
    by (simp add: probe_a_def probe_b_def fsub_def)
  from probe_test_asymmetric [where A = probe_a and B = probe_b and A' = ?A' and B' = ?B'] h
  show ?thesis by blast
qed

section \<open>Player: one tick\<close>

text \<open>
  Claim C3, as amended. A player that starts the tick on the ground (\<open>y = GROUND_Y_LEVEL\<close>,
  \<open>vy = 0\<close>, not in the air) with a jump queued leaves \<^verbatim>\<open>update\<close> in the air, with the
  queued jump cleared, and with \<open>vy\<close> equal to \<open>INITIAL_JUMP_SPEED_IN_Y\<close> less the
  gravity of this same tick, \<open>GRAVITY * dt\<close>: the test \<^verbatim>\<open>if self._is_in_air\<close> follows the
  jump and sees the flag that the jump has just set.
\<close>

theorem jump_tick:
  assumes "y p = GROUND_Y_LEVEL" and "snd (speed p) = 0" and "\<not> is_in_air p"
    and "jump_action_queued c"
  shows "snd (speed (fst (Player_update p dt c)))
           = fsub INITIAL_JUMP_SPEED_IN_Y (fmul GRAVITY dt)
       \<and> is_in_air (fst (Player_update p dt c))
       \<and> \<not> jump_action_queued (snd (Player_update p dt c))"
  using assms
  by (simp add: Player_update_def Let_def fmul_zero_left fadd_zero_right ground_is_b64)

theorem jump_tick_witness:
  "y grounded_player = GROUND_Y_LEVEL \<and> snd (speed grounded_player) = 0
   \<and> \<not> is_in_air grounded_player \<and> jump_action_queued jump_pressed
   \<and> snd (speed (fst (Player_update grounded_player 1 jump_pressed)))
       = fsub INITIAL_JUMP_SPEED_IN_Y (fmul GRAVITY 1)
   \<and> is_in_air (fst (Player_update grounded_player 1 jump_pressed))
   \<and> \<not> jump_action_queued (snd (Player_update grounded_player 1 jump_pressed))"
proof -
  have h: "y grounded_player = GROUND_Y_LEVEL" "snd (speed grounded_player) = 0"
    "\<not> is_in_air grounded_player" "jump_action_queued jump_pressed"
    by (simp_all add: grounded_player_def Player_init_def jump_pressed_def)
  from jump_tick [OF h, of 1] h show ?thesis by simp
qed

text \<open>
  Claim C3 as stated fails: for the player of \<^verbatim>\<open>Player(0.0)\<close>, a queued jump and
  \<open>dt = 1.0\<close>, \<open>vy\<close> after the tick is not \<open>INITIAL_JUMP_SPEED_IN_Y\<close>.
\<close>

theorem jump_tick_speed_counterexample:
  "y grounded_player = GROUND_Y_LEVEL \<and> snd (speed grounded_player) = 0
   \<and> \<not> is_in_air grounded_player \<and> jump_action_queued jump_pressed
   \<and> snd (speed (fst (Player_update grounded_player 1 jump_pressed)))
       \<noteq> INITIAL_JUMP_SPEED_IN_Y"
  by (simp add: grounded_player_def Player_init_def jump_pressed_def Player_update_def Let_def
      fmul_zero_left fadd_zero_right ground_is_b64 first_tick_speed)

text \<open>
  Claim C4, as amended. For a player that is in the air, \<^verbatim>\<open>update\<close> subtracts
  \<open>GRAVITY * dt\<close> from \<open>vy\<close>, and the flag after the update is true exactly when
  \<open>y \<ge> GROUND_Y_LEVEL\<close> at the moment of the check (\<open>y\<close> as advanced by the first step of
  the tick): the flag is kept while the player is at or above the ground and cleared once
  \<open>y < GROUND_Y_LEVEL\<close>.
\<close>

theorem airborne_tick:
  assumes "is_in_air p"
  shows "snd (speed (fst (Player_update p dt c))) = fsub (snd (speed p)) (fmul GRAVITY dt)
       \<and> is_in_air (fst (Player_update p dt c))
           = (GROUND_Y_LEVEL \<le> fadd (y p) (fmul (snd (speed p)) dt))"
  using assms by (simp add: Player_update_def Let_def)

theorem airborne_tick_witness:
  "is_in_air airborne_player
   \<and> snd (speed (fst (Player_update airborne_player 1 no_jump)))
        = fsub (snd (speed airborne_player)) (fmul GRAVITY 1)
   \<and> is_in_air (fst (Player_update airborne_player 1 no_jump))
        = (GROUND_Y_LEVEL \<le> fadd (y airborne_player) (fmul (snd (speed airborne_player)) 1))"
proof -
  have h: "is_in_air airborne_player" by (simp add: airborne_player_def)
  from airborne_tick [OF h, of 1 no_jump] h show ?thesis by simp
qed

text \<open>
  Claim C4 as stated fails: a player in the air at \<open>y = 0.0\<close> with \<open>vy = 0.0\<close> has
  \<open>y \<ge> GROUND_Y_LEVEL\<close> at the check, and is still in the air after the update.
\<close>

theorem airborne_flag_counterexample:
  "is_in_air airborne_player
   \<and> GROUND_Y_LEVEL \<le> fadd (y airborne_player) (fmul (snd (speed airborne_player)) 1)
   \<and> is_in_air (fst (Player_update airborne_player 1 no_jump))"
  by (simp add: airborne_player_def Player_init_def no_jump_def Player_update_def Let_def
      fmul_zero_left fadd_zero_right b64_zero ground_nonpos)


section \<open>GameState: one tick\<close>

text \<open>
  Claim C8, as amended. For a GameState whose player is set, \<^verbatim>\<open>update(dt)\<close> returns
  with \<open>camera_position\<close> equal to the player's \<open>x\<close> and \<open>total_time_played\<close> equal to
  the float sum of its old value and \<open>dt\<close> (the exact sum rounded to binary64); for
  \<open>dt \<ge> 0\<close> the new value is not below the old one. Over the ticks \<open>0.1\<close>, \<open>0.2\<close>,
  \<open>0.05\<close> from \<open>0.0\<close> the total is the float just above \<open>0.35\<close>, that is
  \<open>0.35000000000000003\<close>.
\<close>

theorem GameState_update_spec:
  assumes "player g = Some p"
  shows "(\<exists>g'. GameState_update g dt = Inr g' \<and> camera_position g' = x p
            \<and> total_time_played g' = fadd (total_time_played g) dt
            \<and> (is_b64 (total_time_played g) \<and> 0 \<le> dt
                 \<longrightarrow> total_time_played g \<le> total_time_played g'))
       \<and> GameState_updates playing_state [b64 (1/10), b64 (2/10), b64 (5/100)]
           = Inr (playing_state\<lparr>camera_position := 5,
                                 total_time_played := b64 (35/100) + 2 powi (- 54)\<rparr>)"
proof -
  have "GameState_updates playing_state [b64 (1/10), b64 (2/10), b64 (5/100)]
          = Inr (playing_state\<lparr>camera_position := 5,
                                total_time_played := b64 (35/100) + 2 powi (- 54)\<rparr>)"
    by (simp only: three_updates three_ticks_sum)
  then show ?thesis
    using assms by (simp add: GameState_update_def fadd_never_below)
qed

theorem GameState_update_spec_witness:
  "player playing_state = Some (Player_init 5 GROUND_Y_LEVEL)
   \<and> is_b64 (total_time_played playing_state) \<and> 0 \<le> b64 (1/10)
   \<and> (\<exists>g'. GameState_update playing_state (b64 (1/10)) = Inr g' \<and> camera_position g' = 5
          \<and> total_time_played g' = fadd 0 (b64 (1/10))
          \<and> total_time_played playing_state \<le> total_time_played g')"
proof -
  have h: "player playing_state = Some (Player_init 5 GROUND_Y_LEVEL)"
    by (simp add: playing_state_def)
  have b: "is_b64 (total_time_played playing_state)"
    by (simp add: playing_state_def GameState_class_def is_b64_def b64_zero)
  have x: "x (Player_init 5 GROUND_Y_LEVEL) = 5" and t: "total_time_played playing_state = 0"
    by (simp_all add: Player_init_def playing_state_def GameState_class_def)
  from GameState_update_spec [OF h, of "b64 (1/10)"] b tenth_nonneg h
  show ?thesis unfolding x t by blast
qed

text \<open>
  Claim C8 as stated fails: after the ticks \<open>0.1\<close>, \<open>0.2\<close>, \<open>0.05\<close> from \<open>0.0\<close>,
  \<open>total_time_played\<close> is neither the float \<open>0.35\<close> nor the number \<open>35/100\<close>, but the float
  next above both.
\<close>

theorem three_ticks_counterexample:
  "GameState_updates playing_state [b64 (1/10), b64 (2/10), b64 (5/100)]
     = Inr (playing_state\<lparr>camera_position := 5,
                           total_time_played := b64 (35/100) + 2 powi (- 54)\<rparr>)
   \<and> b64 (35/100) + 2 powi (- 54) \<noteq> b64 (35/100)
   \<and> b64 (35/100) + 2 powi (- 54) \<noteq> 35/100"
proof -
  have "(2::real) powi (- 54) \<noteq> 0" by simp
  then have "b64 (35/100) + 2 powi (- 54) \<noteq> b64 (35/100)"
    by (simp only: add_cancel_left_right) simp
  with three_ticks_inexact show ?thesis by (simp only: three_updates three_ticks_sum) simp
qed

section \<open>ObstacleManager: placement and expiry\<close>

text \<open>
  Claim C2 fails on the code. \<^verbatim>\<open>add_new_obstacle\<close> appends the obstacle, and then
  \<^verbatim>\<open>_set_random_position\<close> raises TypeError at its first line, for every state, obstacle
  and sequence of random samples: no position is assigned.
\<close>

theorem add_new_obstacle_raises:
  "add_new_obstacle w obstacle draws
     = Some (Inl TypeError, w\<lparr>obstacles := obstacles w @ [obstacle]\<rparr>)"
  by (simp add: add_new_obstacle_def set_random_position_def)

text \<open>
  Claim C6 fails on the code. With an empty deque and the player at \<open>x = 5.0\<close>,
  \<^verbatim>\<open>add_new_obstacle\<close> raises TypeError and the obstacle keeps its \<open>x\<close>, here \<open>0.0\<close>,
  which is not \<open>5.0 + FIRST_OBSTACLE_OFFSET_IN_X\<close>.
\<close>

theorem first_obstacle_not_placed:
  "obstacles first_spawn_world = []
   \<and> map_option x (player (GameState_attrs first_spawn_world)) = Some 5
   \<and> add_new_obstacle first_spawn_world 0 draws
        = Some (Inl TypeError, first_spawn_world\<lparr>obstacles := [0]\<rparr>)
   \<and> x (heap (first_spawn_world\<lparr>obstacles := [0]\<rparr>) 0) = 0
   \<and> fadd 5 FIRST_OBSTACLE_OFFSET_IN_X \<noteq> 0"
  using first_spawn_position_pos
  by (simp add: first_spawn_world_def new_obstacle_def GameState_class_def Player_init_def
      add_new_obstacle_def set_random_position_def first_spawn_position)

text \<open>
  Claim C7 fails on the code. Two calls of \<^verbatim>\<open>add_new_obstacle\<close>, for an obstacle at
  \<open>x = 1.0\<close> and then one at \<open>x = 0.0\<close>, each raise TypeError and leave both obstacles in
  the deque at the positions they came with: the sequence of \<open>x\<close> is \<open>[1.0, 0.0]\<close>.
\<close>

theorem successive_adds_not_increasing:
  "(\<exists>w1 w2. add_new_obstacle two_obstacles_world 0 ds = Some (Inl TypeError, w1)
      \<and> add_new_obstacle w1 1 ds' = Some (Inl TypeError, w2)
      \<and> map (\<lambda>r. x (heap w2 r)) (obstacles w2) = [1, 0])
   \<and> \<not> sorted_wrt (<) [1, 0 :: real]"
  by (simp add: two_obstacles_world_def new_obstacle_def add_new_obstacle_def
      set_random_position_def)

text \<open>
  Claim C5 fails on the code. With the camera at \<open>0.0\<close>, an obstacle at \<open>x = -2.0\<close>
  satisfies \<open>x \<le> camera_position - DESTRUCT_OFFSET_IN_X\<close>; \<^verbatim>\<open>check_for_destroy\<close> unbinds its
  local name \<^verbatim>\<open>self\<close> and leaves the world as it was, the obstacle still in the deque.
\<close>

theorem check_for_destroy_keeps_obstacle:
  "x (heap world_with_passed_obstacle 0)
      \<le> fsub (camera_position (GameState_attrs world_with_passed_obstacle)) DESTRUCT_OFFSET_IN_X
   \<and> fst (check_for_destroy world_with_passed_obstacle 0) ''self'' = None
   \<and> snd (check_for_destroy world_with_passed_obstacle 0) = world_with_passed_obstacle
   \<and> obstacles (snd (check_for_destroy world_with_passed_obstacle 0)) = [0]"
  by (simp add: world_with_passed_obstacle_def passed_obstacle_def new_obstacle_def
      GameState_class_def check_for_destroy_def destruct_threshold)

end
